theory Spec2Isabelle
  imports Main "HOL-Library.Sublist"
begin

section \<open>JSON values\<close>

text \<open>
  The value that \<^verbatim>\<open>json.loads\<close> returns. Numbers are the integers: the feed's revision
  identifiers and timestamps are integers, and no modelled operation computes with fractions.
\<close>

datatype json =
    JNull
  | JBool bool
  | JInt int
  | JStr string
  | JList "json list"
  | JDict "(string \<times> json) list"

section \<open>Exceptions\<close>

text \<open>
  The Python exceptions that the modelled code can raise. A raise is the \<open>Inl\<close> branch
  of a sum, or an \<open>error option\<close> stored in the state of the polling loop. KeyError
  carries the key that was not found.
\<close>

datatype error =
    IndexError
  | ValueError
  | KeyError json
  | TypeError
  | JSONDecodeError
  | ConnectionError
  | HTTPError nat

section \<open>The bounded deques of \<open>make_input_queue\<close>\<close>

text \<open>
  \<^verbatim>\<open>event_q = deque(maxlen=5)\<close> and \<^verbatim>\<open>final_q = deque(maxlen=5)\<close>. A deque is the
  list of its items, leftmost first. \<^verbatim>\<open>append\<close> adds on the right and, when the deque
  then holds more than \<open>maxlen\<close> items, removes the leftmost one; \<^verbatim>\<open>pop\<close> removes and
  returns the rightmost item and raises IndexError on an empty deque.
\<close>

definition maxlen :: nat where
  "maxlen = 5"

definition deque_append :: "'a list \<Rightarrow> 'a \<Rightarrow> 'a list" where
  "deque_append q x = (let q' = q @ [x] in if length q' > maxlen then tl q' else q')"

definition deque_pop :: "'a list \<Rightarrow> error + ('a \<times> 'a list)" where
  "deque_pop q = (if q = [] then Inl IndexError else Inr (last q, butlast q))"

text \<open>A run of appends with no pop in between.\<close>

definition pushes :: "'a list \<Rightarrow> 'a list \<Rightarrow> 'a list" where
  "pushes q xs = foldl deque_append q xs"

section \<open>The event filter of \<open>main\<close>\<close>

text \<open>
  Python's \<^verbatim>\<open>needle in haystack\<close> on strings: the needle occurs at some position of
  the haystack. It is computed by trying every position from the left.
\<close>

fun str_in :: "string \<Rightarrow> string \<Rightarrow> bool" where
  "str_in needle [] = (needle = [])"
| "str_in needle (c # cs) = (prefix needle (c # cs) \<or> str_in needle cs)"

definition input_filter :: "string \<Rightarrow> bool" where
  \<open>input_filter event_data =
     (let is_wikidata = str_in ''"domain":"www.wikidata.org"'' event_data;
          is_edit = str_in ''"type":"edit"'' event_data;
          is_new = str_in ''"type":"new"'' event_data
      in is_wikidata \<and> (is_edit \<or> is_new))\<close>

section \<open>The two threads of \<open>make_input_queue\<close>\<close>

text \<open>An event of the server-sent event stream: its type and its payload.\<close>

record sse_event =
  event :: string
  data :: string

text \<open>One iteration of the loop of \<^verbatim>\<open>feed_event_q\<close>.\<close>

definition feed_event_q :: "(string \<Rightarrow> bool) \<Rightarrow> string list \<Rightarrow> sse_event \<Rightarrow> string list" where
  "feed_event_q filter_fn event_q ev =
     (if event ev = ''message'' \<and> filter_fn (data ev) then deque_append event_q (data ev)
      else event_q)"

text \<open>
  One iteration of the loop of \<^verbatim>\<open>feed_final_q\<close>, up to its \<^verbatim>\<open>sleep()\<close>: the state is the
  pair of \<open>event_q\<close> and \<open>final_q\<close>.
\<close>

definition feed_final_q :: "string list \<times> string list \<Rightarrow> string list \<times> string list" where
  "feed_final_q qs =
     (case deque_pop (fst qs) of
        Inl e \<Rightarrow> qs
      | Inr (item, event_q') \<Rightarrow> (event_q', deque_append (snd qs) item))"

text \<open>
  A sampling period: the events that the stream delivers during the period, then the
  sampler's iteration at the end of it.
\<close>

definition period ::
  "(string \<Rightarrow> bool) \<Rightarrow> sse_event list \<Rightarrow> string list \<times> string list \<Rightarrow> string list \<times> string list" where
  "period filter_fn evs qs = feed_final_q (foldl (feed_event_q filter_fn) (fst qs) evs, snd qs)"

text \<open>The payloads that \<^verbatim>\<open>feed_event_q\<close> appends to \<open>event_q\<close>, among the events of a period.\<close>

definition accepted :: "(string \<Rightarrow> bool) \<Rightarrow> sse_event list \<Rightarrow> string list" where
  "accepted filter_fn evs =
     map data (filter (\<lambda>ev. event ev = ''message'' \<and> filter_fn (data ev)) evs)"

section \<open>Subscripts and the revision record\<close>

text \<open>
  \<^verbatim>\<open>v[key]\<close> for a string key: a dict without the key raises KeyError, and every other
  value raises TypeError (a list or a string wants integer indices, the rest cannot be
  subscripted).
\<close>

fun getitem :: "json \<Rightarrow> string \<Rightarrow> error + json" where
  "getitem (JDict kvs) key =
     (case map_of kvs key of None \<Rightarrow> Inl (KeyError (JStr key)) | Some v \<Rightarrow> Inr v)"
| "getitem v key = Inl TypeError"

text \<open>
  \<^verbatim>\<open>@dataclass class Revision\<close>. A dataclass does not check the declared types of its
  fields, so each field holds the value of the payload as it is.
\<close>

record Revision =
  page_title :: json
  rev_id :: json
  rc_timestamp :: json

text \<open>
  Lines 124 to 128 of \<^verbatim>\<open>fill_revs\<close>: the keyword arguments are evaluated in order, so
  the first subscript that fails is the one reported, and the object is built from
  whatever values the subscripts return.
\<close>

definition make_revision :: "json \<Rightarrow> error + Revision" where
  "make_revision parsed =
     (case getitem parsed ''title'' of
        Inl e \<Rightarrow> Inl e
      | Inr t \<Rightarrow>
          (case getitem parsed ''revision'' of
             Inl e \<Rightarrow> Inl e
           | Inr r \<Rightarrow>
               (case getitem r ''new'' of
                  Inl e \<Rightarrow> Inl e
                | Inr n \<Rightarrow>
                    (case getitem parsed ''timestamp'' of
                       Inl e \<Rightarrow> Inl e
                     | Inr ts \<Rightarrow> Inr \<lparr>page_title = t, rev_id = n, rc_timestamp = ts\<rparr>))))"

section \<open>The dict \<open>revs\<close>\<close>

text \<open>
  A Python dict as the list of its items in insertion order; the keys are JSON values,
  since they come from the payloads. Assigning to a key that is present replaces the value
  where it stands; a new key goes to the end. \<^verbatim>\<open>del\<close> removes the item of the key; the
  source only deletes a key that it has just looked up.
\<close>

type_synonym 'v dict = "(json \<times> 'v) list"

text \<open>
  A value as a key of a dict: a list or a dict cannot be hashed, which is a TypeError;
  \<^verbatim>\<open>True\<close> and \<^verbatim>\<open>False\<close> are equal to 1 and 0 and hash alike, so they are the same keys
  as these; every other value is a key of its own.
\<close>

fun dict_key :: "json \<Rightarrow> error + json" where
  "dict_key (JList xs) = Inl TypeError"
| "dict_key (JDict kvs) = Inl TypeError"
| "dict_key (JBool b) = Inr (JInt (if b then 1 else 0))"
| "dict_key k = Inr k"

fun dict_setitem :: "'v dict \<Rightarrow> json \<Rightarrow> 'v \<Rightarrow> 'v dict" where
  "dict_setitem [] k v = [(k, v)]"
| "dict_setitem ((k', v') # kvs) k v =
     (if k' = k then (k, v) # kvs else (k', v') # dict_setitem kvs k v)"

fun dict_getitem :: "'v dict \<Rightarrow> json \<Rightarrow> error + 'v" where
  "dict_getitem [] k = Inl (KeyError k)"
| "dict_getitem ((k', v') # kvs) k = (if k' = k then Inr v' else dict_getitem kvs k)"

fun dict_delitem :: "'v dict \<Rightarrow> json \<Rightarrow> 'v dict" where
  "dict_delitem [] k = []"
| "dict_delitem ((k', v') # kvs) k = (if k' = k then kvs else (k', v') # dict_delitem kvs k)"

definition dict_keys :: "'v dict \<Rightarrow> json list" where
  "dict_keys kvs = map fst kvs"


section \<open>Draining the input queue: \<open>fill_revs\<close>\<close>

text \<open>
  The loop of \<^verbatim>\<open>fill_revs\<close> on the deque \<open>q\<close> and the dict \<open>revs\<close>. \<open>loads\<close> stands for
  \<^verbatim>\<open>json.loads\<close>, with \<open>None\<close> where it raises JSONDecodeError. The assignment
  \<^verbatim>\<open>revs[rev.page_title] = rev\<close> hashes the title first. The result is the exception that
  left the loop, if any, with the deque and the dict as they are at that moment.
\<close>

function fill_revs ::
  "(string \<Rightarrow> json option) \<Rightarrow> string list \<Rightarrow> Revision dict \<Rightarrow>
     error option \<times> string list \<times> Revision dict" where
  "fill_revs loads q revs =
     (case deque_pop q of
        Inl e \<Rightarrow> (None, q, revs)
      | Inr (raw_event, q') \<Rightarrow>
          (case loads raw_event of
             None \<Rightarrow> (Some JSONDecodeError, q', revs)
           | Some parsed \<Rightarrow>
               (case make_revision parsed of
                  Inl e \<Rightarrow> (Some e, q', revs)
                | Inr rv \<Rightarrow>
                    (case dict_key (page_title rv) of
                       Inl e \<Rightarrow> (Some e, q', revs)
                     | Inr k \<Rightarrow> fill_revs loads q' (dict_setitem revs k rv)))))"
  by pat_completeness auto
termination
  by (relation "measure (\<lambda>(loads, q, revs). length q)")
     (auto simp: deque_pop_def split: if_splits)

declare fill_revs.simps [simp del]

section \<open>The lookup: \<open>cirrusdump\<close> and \<open>current_search_rev\<close>\<close>

text \<open>
  \<^verbatim>\<open>sep.join(items)\<close>: TypeError when an item is not a string, else the items with the
  separator between them.
\<close>

fun str_items :: "json list \<Rightarrow> error + string list" where
  "str_items [] = Inr []"
| "str_items (JStr x # items) =
     (case str_items items of Inl e \<Rightarrow> Inl e | Inr xs \<Rightarrow> Inr (x # xs))"
| "str_items (v # items) = Inl TypeError"

fun join :: "string \<Rightarrow> string list \<Rightarrow> string" where
  "join sep [] = []"
| "join sep [x] = x"
| "join sep (x # y # ys) = x @ sep @ join sep (y # ys)"

definition py_join :: "string \<Rightarrow> json list \<Rightarrow> error + string" where
  "py_join sep items = (case str_items items of Inl e \<Rightarrow> Inl e | Inr xs \<Rightarrow> Inr (join sep xs))"

text \<open>
  A document of a page's \<^verbatim>\<open>cirrusdoc\<close> list, by its \<^verbatim>\<open>doc['source']['version']\<close>, and a
  page of the response, by its \<^verbatim>\<open>title\<close> and its \<^verbatim>\<open>cirrusdoc\<close> list, \<open>None\<close> when the
  page has no such key.
\<close>

record doc =
  source_version :: int

record page =
  title :: string
  cirrusdoc :: "doc list option"

text \<open>
  The response of \<^verbatim>\<open>requests.get\<close>: its status code, and what
  \<^verbatim>\<open>res.json()['query']['pages']\<close> evaluates to, the pages in the order of \<^verbatim>\<open>.values()\<close>
  or the exception raised.
\<close>

record response =
  status_code :: nat
  pages :: "error + page list"

text \<open>\<^verbatim>\<open>Response.raise_for_status\<close>: HTTPError on a 4xx or 5xx status.\<close>

definition raise_for_status :: "response \<Rightarrow> error option" where
  "raise_for_status res =
     (if 400 \<le> status_code res \<and> status_code res < 600 then Some (HTTPError (status_code res))
      else None)"

text \<open>
  \<open>get n titles\<close> stands for the call of \<^verbatim>\<open>requests.get\<close> with the given \<open>titles\<close>
  parameter when \<open>n\<close> calls were made before it; \<open>Inl\<close> is an exception of the network
  layer. The list \<open>sent\<close> records the \<open>titles\<close> parameter of every call made so far, and
  is returned extended by the call made here, if one is made.
\<close>

definition cirrusdump ::
  "(nat \<Rightarrow> string \<Rightarrow> error + response) \<Rightarrow> json list \<Rightarrow> string list \<Rightarrow>
     (error + page list) \<times> string list" where
  "cirrusdump get titles sent =
     (case py_join ''|'' titles of
        Inl e \<Rightarrow> (Inl e, sent)
      | Inr joined \<Rightarrow>
          if joined = [] then (Inr [], sent)
          else
            (case get (length sent) joined of
               Inl e \<Rightarrow> (Inl e, sent @ [joined])
             | Inr res \<Rightarrow>
                 (case raise_for_status res of
                    Some e \<Rightarrow> (Inl e, sent @ [joined])
                  | None \<Rightarrow> (pages res, sent @ [joined]))))"

text \<open>\<^verbatim>\<open>max(rev_ids)\<close>: ValueError on the empty list, else a left-to-right scan.\<close>

fun py_max :: "int list \<Rightarrow> error + int" where
  "py_max [] = Inl ValueError"
| "py_max (x # xs) = Inr (foldl (\<lambda>m v. if v > m then v else m) x xs)"

text \<open>The body of the loop of \<^verbatim>\<open>current_search_rev\<close>: \<open>None\<close> is Python's \<^verbatim>\<open>None\<close>.\<close>

definition search_rev :: "page \<Rightarrow> string \<times> int option" where
  "search_rev p =
     (let rev_ids = map source_version (case cirrusdoc p of None \<Rightarrow> [] | Some docs \<Rightarrow> docs)
      in (title p, case py_max rev_ids of Inl e \<Rightarrow> None | Inr m \<Rightarrow> Some m))"

definition current_search_rev ::
  "(nat \<Rightarrow> string \<Rightarrow> error + response) \<Rightarrow> json list \<Rightarrow> string list \<Rightarrow>
     (error + (string \<times> int option) list) \<times> string list" where
  "current_search_rev get titles sent =
     (case cirrusdump get titles sent of
        (Inl e, sent') \<Rightarrow> (Inl e, sent')
      | (Inr ps, sent') \<Rightarrow> (Inr (map search_rev ps), sent'))"

section \<open>The polling loop: \<open>monitor_latency\<close>\<close>

text \<open>
  What the polling loop works with: \<^verbatim>\<open>json.loads\<close>, \<^verbatim>\<open>requests.get\<close> and the clock, whose
  \<open>n\<close>-th reading is \<open>clock n\<close>.
\<close>

record world =
  json_loads :: "string \<Rightarrow> json option"
  requests_get :: "nat \<Rightarrow> string \<Rightarrow> error + response"
  clock :: "nat \<Rightarrow> int"

text \<open>
  The state of the generator \<^verbatim>\<open>monitor_latency\<close>: the deque \<open>q\<close> it reads, its dict
  \<open>revs\<close>, the requests sent, the number of clock readings taken, the pairs yielded so far,
  and the exception that ended it, if one did.
\<close>

record state =
  final_q :: "string list"
  pending :: "Revision dict"
  requests :: "string list"
  clock_calls :: nat
  yielded :: "(Revision \<times> int) list"
  raised :: "error option"

text \<open>
  \<^verbatim>\<open>r >= v\<close> for an integer \<open>r\<close>: an integer or a boolean (1 or 0) is compared, and
  every other value is a TypeError.
\<close>

fun py_ge :: "int \<Rightarrow> json \<Rightarrow> error + bool" where
  "py_ge r (JInt n) = Inr (r \<ge> n)"
| "py_ge r (JBool b) = Inr (r \<ge> (if b then 1 else 0))"
| "py_ge r v = Inl TypeError"

text \<open>
  The test \<^verbatim>\<open>cur_rev_id and cur_rev_id >= rev.rev_id\<close>: \<^verbatim>\<open>None\<close> and \<^verbatim>\<open>0\<close> are false in
  Python, so the comparison is made for the other integers only.
\<close>

definition satisfied :: "int option \<Rightarrow> Revision \<Rightarrow> error + bool" where
  "satisfied cur_rev_id rv =
     (case cur_rev_id of
        None \<Rightarrow> Inr False
      | Some r \<Rightarrow> if r = 0 then Inr False else py_ge r (rev_id rv))"

text \<open>The body of the \<^verbatim>\<open>for\<close> loop of lines 136 to 140, for one pair of the lookup.\<close>

definition resolve :: "(nat \<Rightarrow> int) \<Rightarrow> string \<times> int option \<Rightarrow> state \<Rightarrow> state" where
  "resolve clk found s =
     (case dict_getitem (pending s) (JStr (fst found)) of
        Inl e \<Rightarrow> s\<lparr>raised := Some e\<rparr>
      | Inr rv \<Rightarrow>
          (case satisfied (snd found) rv of
             Inl e \<Rightarrow> s\<lparr>raised := Some e\<rparr>
           | Inr ok \<Rightarrow>
               if ok
               then s\<lparr>pending := dict_delitem (pending s) (JStr (fst found)),
                      yielded := yielded s @ [(rv, clk (clock_calls s))],
                      clock_calls := Suc (clock_calls s)\<rparr>
               else s))"

text \<open>The \<^verbatim>\<open>for\<close> loop: it ends at the first exception.\<close>

fun resolve_all :: "(nat \<Rightarrow> int) \<Rightarrow> (string \<times> int option) list \<Rightarrow> state \<Rightarrow> state" where
  "resolve_all clk [] s = s"
| "resolve_all clk (found # rest) s =
     (let s' = resolve clk found s in
      if raised s' = None then resolve_all clk rest s' else s')"

text \<open>
  One iteration of the \<^verbatim>\<open>while True\<close> loop of \<^verbatim>\<open>monitor_latency\<close>, up to its \<^verbatim>\<open>sleep()\<close>:
  the drain, the lookup for the keys of \<open>revs\<close> as they are after the drain, and the
  \<^verbatim>\<open>for\<close> loop over what the lookup found. The \<^verbatim>\<open>print\<close> of line 134 only writes to the
  console and leaves no trace in the state.
\<close>

definition poll :: "world \<Rightarrow> state \<Rightarrow> state" where
  "poll w s =
     (case fill_revs (json_loads w) (final_q s) (pending s) of
        (Some e, q', revs') \<Rightarrow> s\<lparr>final_q := q', pending := revs', raised := Some e\<rparr>
      | (None, q', revs') \<Rightarrow>
          (case current_search_rev (requests_get w) (dict_keys revs') (requests s) of
             (Inl e, sent') \<Rightarrow>
               s\<lparr>final_q := q', pending := revs', requests := sent', raised := Some e\<rparr>
           | (Inr found, sent') \<Rightarrow>
               resolve_all (clock w) found
                 (s\<lparr>final_q := q', pending := revs', requests := sent'\<rparr>)))"

text \<open>
  The loop itself, for as many iterations as the list is long: each element is what the
  sampler thread has appended to \<open>q\<close> since the iteration before. An exception ends the
  loop, and with it the process.
\<close>

fun monitor_latency :: "world \<Rightarrow> string list list \<Rightarrow> state \<Rightarrow> state" where
  "monitor_latency w [] s = s"
| "monitor_latency w (sampled # later) s =
     (if raised s \<noteq> None then s
      else monitor_latency w later (poll w (s\<lparr>final_q := pushes (final_q s) sampled\<rparr>)))"

definition initial :: state where
  "initial = \<lparr>final_q = [], pending = [], requests = [], clock_calls = 0, yielded = [],
     raised = None\<rparr>"

section \<open>The specification's reading of the filter\<close>


section \<open>Sample data\<close>

text \<open>
  Payloads of the change feed, in the shape of the feed's documentation: an edit, a
  creation, a log entry, an edit on another wiki, and the log entry of a protection,
  whose parameters name the protected action.
\<close>

definition payload_q1 :: string where
  \<open>payload_q1 = ''{"domain":"www.wikidata.org","type":"edit","title":"Q1","revision":{"new":42},"timestamp":1000}''\<close>

definition payload_q2 :: string where
  \<open>payload_q2 = ''{"domain":"www.wikidata.org","type":"new","title":"Q2","revision":{"new":7},"timestamp":1005}''\<close>



definition payload_protect :: string where
  \<open>payload_protect = ''{"domain":"www.wikidata.org","type":"log","title":"Q3","log_params":{"details":[{"type":"edit","level":"sysop"}]},"timestamp":1009}''\<close>

text \<open>Two edits of the same page X, to revision 5 and then to revision 7.\<close>

definition payload_x5 :: string where
  \<open>payload_x5 = ''{"domain":"www.wikidata.org","type":"edit","title":"X","revision":{"new":5},"timestamp":1000}''\<close>

definition payload_x7 :: string where
  \<open>payload_x7 = ''{"domain":"www.wikidata.org","type":"edit","title":"X","revision":{"new":7},"timestamp":1004}''\<close>

text \<open>
  A payload cut off in the middle: it passes the filter, which only looks for pieces of
  text, and it is not JSON.
\<close>

definition payload_truncated :: string where
  \<open>payload_truncated = ''{"domain":"www.wikidata.org","type":"edit","title":"Q9''\<close>

definition message :: "string \<Rightarrow> sse_event" where
  "message payload = \<lparr>event = ''message'', data = payload\<rparr>"

text \<open>A clock that starts at 1060 and advances by ten seconds with every reading.\<close>

definition sample_clock :: "nat \<Rightarrow> int" where
  "sample_clock n = 1060 + 10 * int n"

text \<open>The edit of the page X to a revision, and the state that tracks one revision only.\<close>

definition rev_x :: "int \<Rightarrow> int \<Rightarrow> Revision" where
  "rev_x n ts = \<lparr>page_title = JStr ''X'', rev_id = JInt n, rc_timestamp = JInt ts\<rparr>"

definition tracking :: "Revision \<Rightarrow> state" where
  "tracking rv = initial\<lparr>pending := [(page_title rv, rv)]\<rparr>"

text \<open>
  \<^verbatim>\<open>json.loads\<close> on the sample payloads: the complete payloads parse to the dicts below,
  and the payload that is cut off does not parse.
\<close>

definition edit_event :: "string \<Rightarrow> string \<Rightarrow> int \<Rightarrow> int \<Rightarrow> json" where
  "edit_event kind t n ts =
     JDict [(''domain'', JStr ''www.wikidata.org''), (''type'', JStr kind), (''title'', JStr t),
       (''revision'', JDict [(''new'', JInt n)]), (''timestamp'', JInt ts)]"

definition parsed_protect :: json where
  "parsed_protect =
     JDict [(''domain'', JStr ''www.wikidata.org''), (''type'', JStr ''log''),
       (''title'', JStr ''Q3''),
       (''log_params'',
          JDict [(''details'', JList [JDict [(''type'', JStr ''edit''), (''level'', JStr ''sysop'')]])]),
       (''timestamp'', JInt 1009)]"

definition sample_loads :: "string \<Rightarrow> json option" where
  "sample_loads s =
     (if s = payload_q1 then Some (edit_event ''edit'' ''Q1'' 42 1000)
      else if s = payload_q2 then Some (edit_event ''new'' ''Q2'' 7 1005)
      else if s = payload_x5 then Some (edit_event ''edit'' ''X'' 5 1000)
      else if s = payload_x7 then Some (edit_event ''edit'' ''X'' 7 1004)
      else if s = payload_protect then Some parsed_protect
      else None)"

text \<open>The revisions that \<^verbatim>\<open>fill_revs\<close> builds from the payloads of Q1 and Q2.\<close>

definition rev_q1 :: Revision where
  "rev_q1 = \<lparr>page_title = JStr ''Q1'', rev_id = JInt 42, rc_timestamp = JInt 1000\<rparr>"

definition rev_q2 :: Revision where
  "rev_q2 = \<lparr>page_title = JStr ''Q2'', rev_id = JInt 7, rc_timestamp = JInt 1005\<rparr>"

text \<open>Pages of a lookup response: with documents of the given versions, and without any.\<close>

definition page_of :: "string \<Rightarrow> int list \<Rightarrow> page" where
  "page_of t versions = \<lparr>title = t, cirrusdoc = Some (map (\<lambda>v. \<lparr>source_version = v\<rparr>) versions)\<rparr>"

definition page_missing :: "string \<Rightarrow> page" where
  "page_missing t = \<lparr>title = t, cirrusdoc = None\<rparr>"

text \<open>
  Four servers: one that answers every request with status 503, one that cannot be
  reached, one that reports version 41 of Q1 on the first request and version 42
  afterwards, and one that has no document of X.
\<close>

definition get_unavailable :: "nat \<Rightarrow> string \<Rightarrow> error + response" where
  "get_unavailable n titles = Inr \<lparr>status_code = 503, pages = Inl JSONDecodeError\<rparr>"

definition get_offline :: "nat \<Rightarrow> string \<Rightarrow> error + response" where
  "get_offline n titles = Inl ConnectionError"

definition get_scenario :: "nat \<Rightarrow> string \<Rightarrow> error + response" where
  "get_scenario n titles =
     Inr \<lparr>status_code = 200, pages = Inr [page_of ''Q1'' [if n = 0 then 41 else 42]]\<rparr>"


definition sample_world :: "(nat \<Rightarrow> string \<Rightarrow> error + response) \<Rightarrow> world" where
  "sample_world get = \<lparr>json_loads = sample_loads, requests_get = get, clock = sample_clock\<rparr>"

section \<open>Properties of the deques\<close>

lemma deque_append_length: "length q \<le> maxlen \<Longrightarrow> length (deque_append q x) \<le> maxlen"
  by (simp add: deque_append_def Let_def)

lemma deque_append_full: "length q = maxlen \<Longrightarrow> deque_append q x = tl q @ [x]"
  by (cases q) (simp_all add: deque_append_def Let_def maxlen_def)

lemma deque_append_room: "length q < maxlen \<Longrightarrow> deque_append q x = q @ [x]"
  by (simp add: deque_append_def Let_def)

lemma deque_append_drop:
  "length q \<le> maxlen \<Longrightarrow> deque_append q x = drop (Suc (length q) - maxlen) (q @ [x])"
proof (cases "length q = maxlen")
  case True
  then have "q \<noteq> []" by (auto simp: maxlen_def)
  with True show ?thesis by (cases q) (simp_all add: deque_append_full)
next
  case False
  assume "length q \<le> maxlen"
  with False have "length q < maxlen" by simp
  then show ?thesis by (simp add: deque_append_room)
qed

lemma pushes_snoc: "pushes q (xs @ [x]) = deque_append (pushes q xs) x"
  by (simp add: pushes_def)

lemma pushes_length: "length q \<le> maxlen \<Longrightarrow> length (pushes q xs) \<le> maxlen"
  by (induction xs rule: rev_induct) (simp_all add: pushes_def deque_append_length)

lemma pushes_drop:
  "length q \<le> maxlen \<Longrightarrow> pushes q xs = drop (length q + length xs - maxlen) (q @ xs)"
proof (induction xs rule: rev_induct)
  case Nil
  then show ?case by (simp add: pushes_def)
next
  case (snoc x xs)
  define n where "n = length q + length xs"
  define d where "d = n - maxlen"
  have ih: "pushes q xs = drop d (q @ xs)"
    using snoc by (simp add: n_def d_def)
  have len: "length (pushes q xs) = n - d"
    unfolding ih by (simp add: n_def)
  have "pushes q (xs @ [x]) = deque_append (pushes q xs) x"
    by (rule pushes_snoc)
  also have "\<dots> = drop (Suc (n - d) - maxlen) (pushes q xs @ [x])"
    using deque_append_drop [OF pushes_length [OF snoc.prems], of xs x] len by simp
  also have "pushes q xs @ [x] = drop d (q @ xs @ [x])"
    unfolding ih by (simp add: d_def n_def)
  also have "drop (Suc (n - d) - maxlen) (drop d (q @ xs @ [x])) = drop (Suc (n - d) - maxlen + d) (q @ xs @ [x])"
    by (simp only: drop_drop)
  also have "Suc (n - d) - maxlen + d = Suc n - maxlen"
    unfolding d_def by arith
  finally show ?case by (simp only: n_def length_append list.size append_assoc) simp
qed

text \<open>
  C4. After more than \<open>maxlen\<close> appends with no pop, on a deque that was within its
  capacity of 5: the deque was within capacity after every append, an append to a full
  deque dropped the oldest item, and the deque holds the last 5 appended items in order.
\<close>

theorem intake_bounded:
  assumes "length q \<le> maxlen" and "maxlen < length xs"
  shows "maxlen = 5
    \<and> (\<forall>k \<le> length xs. length (pushes q (take k xs)) \<le> maxlen)
    \<and> pushes q xs = drop (length xs - maxlen) xs
    \<and> (\<forall>k < length xs. length (pushes q (take k xs)) = maxlen \<longrightarrow>
          pushes q (take (Suc k) xs) = tl (pushes q (take k xs)) @ [xs ! k])"
proof -
  have bound: "\<forall>k \<le> length xs. length (pushes q (take k xs)) \<le> maxlen"
    using assms(1) by (simp add: pushes_length)
  have "pushes q xs = drop (length q + length xs - maxlen) (q @ xs)"
    using assms(1) by (rule pushes_drop)
  also have "length q + length xs - maxlen = length q + (length xs - maxlen)"
    using assms(2) by simp
  finally have final: "pushes q xs = drop (length xs - maxlen) xs"
    by simp
  have drops: "\<forall>k < length xs. length (pushes q (take k xs)) = maxlen \<longrightarrow>
          pushes q (take (Suc k) xs) = tl (pushes q (take k xs)) @ [xs ! k]"
    by (simp add: take_Suc_conv_app_nth pushes_snoc deque_append_full)
  show ?thesis
    using bound final drops by (simp add: maxlen_def)
qed

theorem intake_bounded_witness:
  "length ([] :: nat list) \<le> maxlen \<and> maxlen < length [1, 2, 3, 4, 5, 6, 7 :: nat]
   \<and> pushes [] [1, 2, 3, 4, 5, 6, 7 :: nat] = [3, 4, 5, 6, 7]"
  using intake_bounded [of "[] :: nat list" "[1, 2, 3, 4, 5, 6, 7]"]
  by (simp add: maxlen_def)

section \<open>The event filter\<close>









section \<open>The sampler\<close>

lemma feed_events_pushes:
  "foldl (feed_event_q filter_fn) q evs = pushes q (accepted filter_fn evs)"
  by (induction evs arbitrary: q) (simp_all add: pushes_def accepted_def feed_event_q_def)

lemma deque_append_last: "deque_append q x \<noteq> [] \<and> last (deque_append q x) = x"
proof (cases "length (q @ [x]) > maxlen")
  case True
  then have "q \<noteq> []" by (auto simp: maxlen_def)
  then obtain y ys where "q = y # ys" by (cases q) auto
  with True show ?thesis by (simp add: deque_append_def)
next
  case False
  then show ?thesis by (simp add: deque_append_def)
qed

lemma pushes_last: "xs \<noteq> [] \<Longrightarrow> pushes q xs \<noteq> [] \<and> last (pushes q xs) = last xs"
  by (cases xs rule: rev_cases) (simp_all add: pushes_snoc deque_append_last)

lemma feed_final_q_empty: "feed_final_q ([], fq) = ([], fq)"
  by (simp add: feed_final_q_def deque_pop_def)

lemma feed_final_q_nonempty:
  "eq \<noteq> [] \<Longrightarrow> feed_final_q (eq, fq) = (butlast eq, deque_append fq (last eq))"
  by (simp add: feed_final_q_def deque_pop_def)

text \<open>
  C5, as amended. When events were accepted during a period, the sampler's iteration at its
  end pops the last accepted one from \<open>event_q\<close> and appends it to \<open>final_q\<close>. An
  iteration on a non-empty \<open>event_q\<close> promotes its newest item, whenever that arrived;
  an iteration on an empty \<open>event_q\<close> changes nothing and raises nothing.
\<close>

theorem sampling_tick:
  "(accepted filter_fn evs \<noteq> [] \<longrightarrow>
      period filter_fn evs (eq, fq) =
        (butlast (pushes eq (accepted filter_fn evs)),
         deque_append fq (last (accepted filter_fn evs))))
   \<and> (eq \<noteq> [] \<longrightarrow> feed_final_q (eq, fq) = (butlast eq, deque_append fq (last eq)))
   \<and> (eq = [] \<longrightarrow> feed_final_q (eq, fq) = (eq, fq))"
  by (simp add: period_def feed_events_pushes pushes_last feed_final_q_nonempty
      feed_final_q_empty)

theorem sampling_tick_witness:
  "accepted input_filter [message payload_q1, message payload_q2] \<noteq> []
   \<and> period input_filter [message payload_q1, message payload_q2] ([], []) =
       ([payload_q1], [payload_q2])
   \<and> feed_final_q ([payload_q1], [payload_q2]) = ([], [payload_q2, payload_q1])
   \<and> feed_final_q ([], [payload_q2]) = ([], [payload_q2])"
proof -
  have a: "accepted input_filter [message payload_q1, message payload_q2] = [payload_q1, payload_q2]"
    by (simp add: accepted_def message_def input_filter_def payload_q1_def payload_q2_def)
  have b: "pushes [] [payload_q1, payload_q2] = [payload_q1, payload_q2]"
    by (simp add: pushes_def deque_append_def maxlen_def)
  show ?thesis
    using sampling_tick [of input_filter "[message payload_q1, message payload_q2]" "[]" "[]"]
      sampling_tick [of input_filter "[]" "[payload_q1]" "[payload_q2]"]
      sampling_tick [of input_filter "[]" "[]" "[payload_q2]"]
    by (simp add: a b deque_append_def maxlen_def)
qed

text \<open>
  C5 as stated fails: two events arrive in one period and none in the next, and the
  second period still promotes an item, the older one left in \<open>event_q\<close>.
\<close>

theorem sampling_zero_arrivals_counterexample:
  "accepted input_filter [] = []
   \<and> period input_filter [message payload_q1, message payload_q2] ([], []) =
       ([payload_q1], [payload_q2])
   \<and> period input_filter [] ([payload_q1], [payload_q2]) = ([], [payload_q2, payload_q1])"
proof -
  have a: "accepted input_filter [message payload_q1, message payload_q2] = [payload_q1, payload_q2]"
    by (simp add: accepted_def message_def input_filter_def payload_q1_def payload_q2_def)
  have "foldl (feed_event_q input_filter) [] [message payload_q1, message payload_q2]
      = [payload_q1, payload_q2]"
    unfolding feed_events_pushes a by (simp add: pushes_def deque_append_def maxlen_def)
  then show ?thesis
    by (simp add: period_def accepted_def feed_final_q_def deque_pop_def deque_append_def
        maxlen_def)
qed

section \<open>The dict\<close>

lemma dict_getitem_map_of:
  "dict_getitem kvs k = (case map_of kvs k of None \<Rightarrow> Inl (KeyError k) | Some v \<Rightarrow> Inr v)"
  by (induction kvs) (auto split: option.splits)



lemma dict_getitem_setitem:
  "dict_getitem (dict_setitem kvs k v) k' = (if k' = k then Inr v else dict_getitem kvs k')"
  by (induction kvs) auto






lemma dict_getitem_notin: "k \<notin> set (dict_keys kvs) \<Longrightarrow> dict_getitem kvs k = Inl (KeyError k)"
  by (induction kvs) (auto simp: dict_keys_def)

lemma dict_getitem_delitem:
  "distinct (dict_keys kvs) \<Longrightarrow>
     dict_getitem (dict_delitem kvs k) k' =
       (if k' = k then Inl (KeyError k) else dict_getitem kvs k')"
proof (induction kvs)
  case Nil
  then show ?case by simp
next
  case (Cons kv kvs)
  obtain k0 v0 where kv: "kv = (k0, v0)" by (cases kv)
  from Cons.prems have notin: "k0 \<notin> set (dict_keys kvs)" and d: "distinct (dict_keys kvs)"
    by (simp_all add: kv dict_keys_def)
  show ?case
  proof (cases "k0 = k")
    case True
    then show ?thesis using notin by (simp add: kv dict_getitem_notin)
  next
    case False
    then show ?thesis using Cons.IH [OF d] by (auto simp: kv)
  qed
qed

section \<open>Resolution\<close>

text \<open>
  C1, as amended. For a pending entry with expected revision \<open>E\<close> and a lookup that
  reports \<open>R\<close> for its subject: the entry is removed and yielded, with a clock reading,
  when \<open>R\<close> is present, not zero and at least \<open>E\<close>; the state is unchanged when \<open>R\<close>
  is unknown, zero or less than \<open>E\<close>. After the removal the subject is no longer tracked.
\<close>

theorem resolution_nonzero:
  assumes "dict_getitem (pending s) (JStr t) = Inr rv" and "rev_id rv = JInt E"
  shows "resolve clk (t, None) s = s
    \<and> resolve clk (t, Some 0) s = s
    \<and> (r < E \<longrightarrow> resolve clk (t, Some r) s = s)
    \<and> (r \<noteq> 0 \<and> r \<ge> E \<longrightarrow>
         resolve clk (t, Some r) s =
           s\<lparr>pending := dict_delitem (pending s) (JStr t),
             yielded := yielded s @ [(rv, clk (clock_calls s))],
             clock_calls := Suc (clock_calls s)\<rparr>)
    \<and> (distinct (dict_keys (pending s)) \<longrightarrow>
         dict_getitem (dict_delitem (pending s) (JStr t)) (JStr t) = Inl (KeyError (JStr t)))"
  using assms by (simp add: resolve_def satisfied_def dict_getitem_delitem)

theorem resolution_nonzero_witness:
  "dict_getitem (pending (tracking (rev_x 7 1000))) (JStr ''X'') = Inr (rev_x 7 1000)
   \<and> rev_id (rev_x 7 1000) = JInt 7
   \<and> resolve sample_clock (''X'', None) (tracking (rev_x 7 1000)) = tracking (rev_x 7 1000)
   \<and> resolve sample_clock (''X'', Some 0) (tracking (rev_x 7 1000)) = tracking (rev_x 7 1000)
   \<and> resolve sample_clock (''X'', Some 6) (tracking (rev_x 7 1000)) = tracking (rev_x 7 1000)
   \<and> resolve sample_clock (''X'', Some 7) (tracking (rev_x 7 1000)) =
       initial\<lparr>yielded := [(rev_x 7 1000, 1060)], clock_calls := 1\<rparr>
   \<and> dict_getitem (pending (tracking (rev_x (- 3) 1000))) (JStr ''X'') = Inr (rev_x (- 3) 1000)
   \<and> rev_id (rev_x (- 3) 1000) = JInt (- 3)
   \<and> resolve sample_clock (''X'', Some 0) (tracking (rev_x (- 3) 1000)) =
       tracking (rev_x (- 3) 1000)"
proof -
  have h: "dict_getitem (pending (tracking (rev_x n 1000))) (JStr ''X'') = Inr (rev_x n 1000)" for n
    by (simp add: tracking_def rev_x_def initial_def)
  have e: "rev_id (rev_x n 1000) = JInt n" for n
    by (simp add: rev_x_def)
  have resolved: "(tracking (rev_x 7 1000))
      \<lparr>pending := dict_delitem (pending (tracking (rev_x 7 1000))) (JStr ''X''),
        yielded := yielded (tracking (rev_x 7 1000)) @
          [(rev_x 7 1000, sample_clock (clock_calls (tracking (rev_x 7 1000))))],
        clock_calls := Suc (clock_calls (tracking (rev_x 7 1000)))\<rparr> =
      initial\<lparr>yielded := [(rev_x 7 1000, 1060)], clock_calls := 1\<rparr>"
    by (simp add: tracking_def rev_x_def initial_def sample_clock_def)
  show ?thesis
    using h [of 7] e [of 7] h [of "- 3"] e [of "- 3"]
      resolution_nonzero [OF h [of 7] e [of 7], where clk = sample_clock and r = 6]
      resolution_nonzero [OF h [of 7] e [of 7], where clk = sample_clock and r = 7]
      resolution_nonzero [OF h [of "- 3"] e [of "- 3"], where clk = sample_clock and r = 0]
    by (simp add: resolved)
qed

text \<open>
  C1 as stated fails at \<open>R = 0\<close> and \<open>E = 0\<close>: the reported revision is present and
  at least the expected one, and the entry stays pending with nothing yielded.
\<close>

theorem resolution_zero_counterexample:
  "dict_getitem (pending (tracking (rev_x 0 1000))) (JStr ''X'') = Inr (rev_x 0 1000)
   \<and> rev_id (rev_x 0 1000) = JInt 0
   \<and> resolve sample_clock (''X'', Some 0) (tracking (rev_x 0 1000)) = tracking (rev_x 0 1000)
   \<and> pending (tracking (rev_x 0 1000)) = [(JStr ''X'', rev_x 0 1000)]
   \<and> yielded (tracking (rev_x 0 1000)) = []"
  by (simp add: tracking_def rev_x_def initial_def resolve_def satisfied_def)

text \<open>
  C10. A lookup that reports revision 0 for a tracked subject leaves the state as it is,
  whatever the expected revision of the entry: the entry stays pending and nothing is
  yielded, also when the expected revision is 0 or negative.
\<close>

theorem zero_revision_unresolved:
  assumes "dict_getitem (pending s) (JStr t) = Inr rv"
  shows "resolve clk (t, Some 0) s = s"
  using assms by (simp add: resolve_def satisfied_def)

theorem zero_revision_unresolved_witness:
  "dict_getitem (pending (tracking (rev_x (- 3) 1000))) (JStr ''X'') = Inr (rev_x (- 3) 1000)
   \<and> rev_id (rev_x (- 3) 1000) = JInt (- 3)
   \<and> resolve sample_clock (''X'', Some 0) (tracking (rev_x (- 3) 1000)) =
       tracking (rev_x (- 3) 1000)"
proof -
  have h: "dict_getitem (pending (tracking (rev_x (- 3) 1000))) (JStr ''X'') =
      Inr (rev_x (- 3) 1000)"
    by (simp add: tracking_def rev_x_def initial_def)
  show ?thesis
    using h zero_revision_unresolved [OF h, of sample_clock]
    by (simp add: rev_x_def)
qed

section \<open>The lookup\<close>

lemma scan_max: "foldl (\<lambda>m v. if v > m then v else m) (x :: int) xs = Max (set (x # xs))"
proof -
  have step: "(\<lambda>v m. if v > m then v else m) = (max :: int \<Rightarrow> int \<Rightarrow> int)"
    by (intro ext) (simp add: max_def)
  have "foldl (\<lambda>m v. if v > m then v else m) x xs = fold (\<lambda>v m. if v > m then v else m) xs x"
    by (simp add: foldl_conv_fold)
  also have "\<dots> = fold max xs x"
    by (rule arg_cong [where f = "\<lambda>f. fold f xs x", OF step])
  also have "\<dots> = Max (set (x # xs))"
    by (rule Max.set_eq_fold [symmetric])
  finally show ?thesis .
qed

lemma py_max_Max: "xs \<noteq> [] \<Longrightarrow> py_max xs = Inr (Max (set xs))"
  by (cases xs) (simp_all add: scan_max)

text \<open>
  C9. For every page of the response, the indexed revision that \<open>search_rev\<close> computes
  for its title is the maximum of the versions of the page's documents; when the list of
  documents is absent or empty it is \<open>None\<close>, and nothing is raised.
  \<open>current_search_rev\<close> computes it for every page that \<open>cirrusdump\<close> returns.
\<close>

theorem indexed_revision:
  "(cirrusdoc p = None \<or> cirrusdoc p = Some [] \<longrightarrow> search_rev p = (title p, None))
   \<and> (cirrusdoc p = Some docs \<and> docs \<noteq> [] \<longrightarrow>
        search_rev p = (title p, Some (Max (source_version ` set docs))))
   \<and> (cirrusdump get titles sent = (Inr ps, sent') \<longrightarrow>
        current_search_rev get titles sent = (Inr (map search_rev ps), sent'))"
proof -
  have "search_rev p = (title p, Some (Max (source_version ` set docs)))"
    if "cirrusdoc p = Some docs" and "docs \<noteq> []"
  proof -
    have "map source_version docs \<noteq> []" using that by simp
    then have "py_max (map source_version docs) = Inr (Max (set (map source_version docs)))"
      by (rule py_max_Max)
    then show ?thesis using that by (simp add: search_rev_def)
  qed
  then show ?thesis
    by (auto simp: search_rev_def current_search_rev_def)
qed

theorem indexed_revision_witness:
  "search_rev (page_of ''Q1'' [41, 42, 40]) = (''Q1'', Some 42)
   \<and> search_rev (page_of ''Q1'' []) = (''Q1'', None)
   \<and> search_rev (page_missing ''Q1'') = (''Q1'', None)"
proof -
  have m: "Max {41, 42, 40 :: int} = 42" by simp
  show ?thesis
    using indexed_revision [of "page_of ''Q1'' [41, 42, 40]" "[\<lparr>source_version = 41\<rparr>, \<lparr>source_version = 42\<rparr>, \<lparr>source_version = 40\<rparr>]"]
      indexed_revision [of "page_of ''Q1'' []"]
      indexed_revision [of "page_missing ''Q1''"]
    by (simp add: page_of_def page_missing_def m)
qed

text \<open>
  C7. For the empty list of titles the lookup returns the empty result and sends no
  request, whatever the server would answer.
\<close>

theorem empty_batch:
  "cirrusdump get [] sent = (Inr [], sent) \<and> current_search_rev get [] sent = (Inr [], sent)"
  by (simp add: cirrusdump_def current_search_rev_def py_join_def)

section \<open>Exceptions end the polling loop\<close>

lemma monitor_latency_raised: "raised s \<noteq> None \<Longrightarrow> monitor_latency w sampled s = s"
  by (cases sampled) simp_all

lemma cirrusdump_failure:
  assumes "py_join ''|'' titles = Inr joined" and "joined \<noteq> []"
    and "get (length sent) joined = Inl e
      \<or> (\<exists>res. get (length sent) joined = Inr res
           \<and> 400 \<le> status_code res \<and> status_code res < 600 \<and> e = HTTPError (status_code res))"
  shows "cirrusdump get titles sent = (Inl e, sent @ [joined])"
  using assms by (auto simp: cirrusdump_def raise_for_status_def)

text \<open>
  C8. When the request of an iteration fails, by an exception of the network layer or by
  a 4xx or 5xx status, the exception leaves the polling loop: the loop makes no further
  iteration whatever is sampled later, exactly one request was sent for the lookup, and
  the pending table is as the drain left it. A request is made when the titles of the
  pending table join to a non-empty text.
\<close>

theorem lookup_failure_fatal:
  assumes "raised s = None"
    and "fill_revs (json_loads w) (pushes (final_q s) sampled) (pending s) = (None, q', revs')"
    and "py_join ''|'' (dict_keys revs') = Inr joined"
    and "joined \<noteq> []"
    and "requests_get w (length (requests s)) joined = Inl e
      \<or> (\<exists>res. requests_get w (length (requests s)) joined = Inr res
           \<and> 400 \<le> status_code res \<and> status_code res < 600 \<and> e = HTTPError (status_code res))"
  shows "monitor_latency w (sampled # later) s =
     s\<lparr>final_q := q', pending := revs', requests := requests s @ [joined], raised := Some e\<rparr>"
proof -
  let ?s1 = "s\<lparr>final_q := pushes (final_q s) sampled\<rparr>"
  have dump: "cirrusdump (requests_get w) (dict_keys revs') (requests s) =
      (Inl e, requests s @ [joined])"
    using assms(3,4,5) by (rule cirrusdump_failure)
  have "poll w ?s1 =
      s\<lparr>final_q := q', pending := revs', requests := requests s @ [joined], raised := Some e\<rparr>"
    using assms(2) dump by (simp add: poll_def current_search_rev_def)
  moreover have "raised (poll w ?s1) \<noteq> None"
    using calculation by simp
  ultimately show ?thesis
    using assms(1) by (simp add: monitor_latency_raised)
qed

section \<open>The drain\<close>

lemma fill_revs_Nil: "fill_revs loads [] revs = (None, [], revs)"
  by (simp add: fill_revs.simps [of loads "[]"] deque_pop_def)

lemma fill_revs_snoc:
  "fill_revs loads (q @ [raw]) revs =
     (case loads raw of
        None \<Rightarrow> (Some JSONDecodeError, q, revs)
      | Some parsed \<Rightarrow>
          (case make_revision parsed of
             Inl e \<Rightarrow> (Some e, q, revs)
           | Inr rv \<Rightarrow>
               (case dict_key (page_title rv) of
                  Inl e \<Rightarrow> (Some e, q, revs)
                | Inr k \<Rightarrow> fill_revs loads q (dict_setitem revs k rv))))"
  by (simp add: fill_revs.simps [of loads "q @ [raw]"] deque_pop_def)


lemma fill_revs_append:
  "fill_revs loads (older @ newer) revs =
     (case fill_revs loads newer revs of
        (None, rest, revs') \<Rightarrow> fill_revs loads older revs'
      | (Some e, rest, revs') \<Rightarrow> (Some e, older @ rest, revs'))"
proof (induction newer arbitrary: revs rule: rev_induct)
  case Nil
  then show ?case by (simp add: fill_revs_Nil)
next
  case (snoc raw newer)
  have "fill_revs loads (older @ newer @ [raw]) revs =
      (case fill_revs loads (newer @ [raw]) revs of
        (None, rest, revs') \<Rightarrow> fill_revs loads older revs'
      | (Some e, rest, revs') \<Rightarrow> (Some e, older @ rest, revs'))"
    using snoc.IH
    by (simp add: fill_revs_snoc [of loads "older @ newer" raw, simplified] fill_revs_snoc
        split: option.splits sum.splits)
  then show ?case by simp
qed


text \<open>
  C2, as amended. When \<^verbatim>\<open>json.loads\<close> fails on an item of the queue, JSONDecodeError
  leaves the polling loop and ends it: the items popped before it, the newer ones, are in the
  pending table, the older items stay in the queue and are never processed, and no
  lookup is made.
\<close>

theorem malformed_payload_fatal:
  assumes "raised s = None"
    and "pushes (final_q s) sampled = older @ raw # newer"
    and "json_loads w raw = None"
    and "fill_revs (json_loads w) newer (pending s) = (None, rest, revs')"
  shows "monitor_latency w (sampled # later) s =
     s\<lparr>final_q := older, pending := revs', raised := Some JSONDecodeError\<rparr>"
proof -
  let ?s1 = "s\<lparr>final_q := pushes (final_q s) sampled\<rparr>"
  have "fill_revs (json_loads w) ((older @ [raw]) @ newer) (pending s) =
      fill_revs (json_loads w) (older @ [raw]) revs'"
    using assms(4) by (simp only: fill_revs_append [of _ "older @ [raw]"] prod.case option.case)
  also have "\<dots> = (Some JSONDecodeError, older, revs')"
    using assms(3) by (simp add: fill_revs_snoc)
  finally have drain: "fill_revs (json_loads w) (final_q ?s1) (pending ?s1) =
      (Some JSONDecodeError, older, revs')"
    using assms(2) by simp
  have "poll w ?s1 = s\<lparr>final_q := older, pending := revs', raised := Some JSONDecodeError\<rparr>"
    unfolding poll_def drain by simp
  moreover have "raised (poll w ?s1) \<noteq> None"
    using calculation by simp
  ultimately show ?thesis
    using assms(1) by (simp add: monitor_latency_raised)
qed

section \<open>The sample payloads\<close>

lemma make_revision_edit_event:
  "make_revision (edit_event kind t n ts) =
     Inr \<lparr>page_title = JStr t, rev_id = JInt n, rc_timestamp = JInt ts\<rparr>"
  by (simp add: make_revision_def edit_event_def)

lemma payloads_differ:
  "payload_q2 \<noteq> payload_q1"
  "payload_x5 \<noteq> payload_q1" "payload_x5 \<noteq> payload_q2"
  "payload_x7 \<noteq> payload_q1" "payload_x7 \<noteq> payload_q2" "payload_x7 \<noteq> payload_x5"
  "payload_truncated \<noteq> payload_q1" "payload_truncated \<noteq> payload_q2"
  "payload_truncated \<noteq> payload_x5" "payload_truncated \<noteq> payload_x7"
  "payload_truncated \<noteq> payload_protect"
  by (simp_all add: payload_q1_def payload_q2_def payload_x5_def payload_x7_def
      payload_truncated_def payload_protect_def)

lemma sample_loads_simps:
  "sample_loads payload_q1 = Some (edit_event ''edit'' ''Q1'' 42 1000)"
  "sample_loads payload_q2 = Some (edit_event ''new'' ''Q2'' 7 1005)"
  "sample_loads payload_x5 = Some (edit_event ''edit'' ''X'' 5 1000)"
  "sample_loads payload_x7 = Some (edit_event ''edit'' ''X'' 7 1004)"
  "sample_loads payload_truncated = None"
  using payloads_differ by (simp_all add: sample_loads_def)

lemma sample_drain:
  "fill_revs sample_loads (q @ [payload_q1]) revs =
     fill_revs sample_loads q (dict_setitem revs (JStr ''Q1'') rev_q1)"
  "fill_revs sample_loads (q @ [payload_q2]) revs =
     fill_revs sample_loads q (dict_setitem revs (JStr ''Q2'') rev_q2)"
  "fill_revs sample_loads (q @ [payload_x5]) revs =
     fill_revs sample_loads q (dict_setitem revs (JStr ''X'') (rev_x 5 1000))"
  "fill_revs sample_loads (q @ [payload_x7]) revs =
     fill_revs sample_loads q (dict_setitem revs (JStr ''X'') (rev_x 7 1004))"
  "fill_revs sample_loads (q @ [payload_truncated]) revs = (Some JSONDecodeError, q, revs)"
  by (simp_all add: fill_revs_snoc sample_loads_simps make_revision_edit_event rev_q1_def
      rev_q2_def rev_x_def)

lemma input_filter_truncated: "input_filter payload_truncated"
  by (simp add: input_filter_def payload_truncated_def)

lemma pushes_Nil: "pushes q [] = q"
  by (simp add: pushes_def)

lemma pushes_three: "pushes [] [a, b, c] = [a, b, c]"
  by (simp add: pushes_def deque_append_def maxlen_def)


lemma pushes_one: "pushes [] [a] = [a]"
  by (simp add: pushes_def deque_append_def maxlen_def)

lemma drain_q2: "fill_revs sample_loads [payload_q2] [] = (None, [], [(JStr ''Q2'', rev_q2)])"
  using sample_drain(2) [of "[]" "[]"] by (simp add: fill_revs_Nil)

section \<open>Runs that end in an exception\<close>

theorem malformed_payload_fatal_witness:
  "raised initial = None
   \<and> pushes (final_q initial) [payload_q1, payload_truncated, payload_q2] =
       [payload_q1] @ payload_truncated # [payload_q2]
   \<and> json_loads (sample_world get_scenario) payload_truncated = None
   \<and> fill_revs (json_loads (sample_world get_scenario)) [payload_q2] (pending initial) =
       (None, [], [(JStr ''Q2'', rev_q2)])
   \<and> monitor_latency (sample_world get_scenario)
        [[payload_q1, payload_truncated, payload_q2], [], []] initial =
       initial\<lparr>final_q := [payload_q1], pending := [(JStr ''Q2'', rev_q2)],
         raised := Some JSONDecodeError\<rparr>"
proof -
  have h1: "raised initial = None"
    by (simp add: initial_def)
  have h2: "pushes (final_q initial) [payload_q1, payload_truncated, payload_q2] =
      [payload_q1] @ payload_truncated # [payload_q2]"
    by (simp add: initial_def pushes_three)
  have h3: "json_loads (sample_world get_scenario) payload_truncated = None"
    by (simp add: sample_world_def sample_loads_simps)
  have h4: "fill_revs (json_loads (sample_world get_scenario)) [payload_q2] (pending initial) =
      (None, [], [(JStr ''Q2'', rev_q2)])"
    by (simp add: sample_world_def initial_def drain_q2)
  show ?thesis
    using h1 h2 h3 h4 malformed_payload_fatal [OF h1 h2 h3 h4, of "[[], []]"]
    by (simp only: simp_thms)
qed

text \<open>
  C2 as stated fails: the payload that is cut off passes the filter, and with it between
  two complete payloads the iteration ends in JSONDecodeError, with the older payload
  still in the queue.
\<close>

theorem malformed_payload_counterexample:
  "input_filter payload_truncated
   \<and> sample_loads payload_truncated = None
   \<and> poll (sample_world get_scenario)
        (initial\<lparr>final_q := [payload_q1, payload_truncated, payload_q2]\<rparr>) =
       initial\<lparr>final_q := [payload_q1], pending := [(JStr ''Q2'', rev_q2)],
         raised := Some JSONDecodeError\<rparr>"
proof -
  have newest: "fill_revs sample_loads [payload_q1, payload_truncated, payload_q2] [] =
      fill_revs sample_loads [payload_q1, payload_truncated] [(JStr ''Q2'', rev_q2)]"
    using sample_drain(2) [of "[payload_q1, payload_truncated]" "[]"] by simp
  have malformed: "fill_revs sample_loads [payload_q1, payload_truncated] [(JStr ''Q2'', rev_q2)] =
      (Some JSONDecodeError, [payload_q1], [(JStr ''Q2'', rev_q2)])"
    using sample_drain(5) [of "[payload_q1]"] by simp
  show ?thesis
    by (simp add: poll_def sample_world_def initial_def input_filter_truncated
        sample_loads_simps newest malformed)
qed

theorem lookup_failure_fatal_witness:
  "monitor_latency (sample_world get_unavailable) [[], [], []] (tracking (rev_x 7 1000)) =
     (tracking (rev_x 7 1000))\<lparr>requests := [''X''], raised := Some (HTTPError 503)\<rparr>
   \<and> monitor_latency (sample_world get_offline) [[], [], []] (tracking (rev_x 7 1000)) =
     (tracking (rev_x 7 1000))\<lparr>requests := [''X''], raised := Some ConnectionError\<rparr>"
proof -
  let ?s = "tracking (rev_x 7 1000)"
  let ?u = "sample_world get_unavailable"
  let ?o = "sample_world get_offline"
  let ?revs = "[(JStr ''X'', rev_x 7 1000)]"
  have h1: "raised ?s = None"
    by (simp add: tracking_def initial_def)
  have h3: "py_join ''|'' (dict_keys ?revs) = Inr ''X''"
    by (simp add: dict_keys_def py_join_def)
  have h4: "''X'' \<noteq> []"
    by simp
  have h2u: "fill_revs (json_loads ?u) (pushes (final_q ?s) []) (pending ?s) = (None, [], ?revs)"
    by (simp add: tracking_def initial_def pushes_Nil fill_revs_Nil rev_x_def)
  have h2o: "fill_revs (json_loads ?o) (pushes (final_q ?s) []) (pending ?s) = (None, [], ?revs)"
    by (simp add: tracking_def initial_def pushes_Nil fill_revs_Nil rev_x_def)
  have h5u: "requests_get ?u (length (requests ?s)) ''X'' = Inl (HTTPError 503)
      \<or> (\<exists>res. requests_get ?u (length (requests ?s)) ''X'' = Inr res
          \<and> 400 \<le> status_code res \<and> status_code res < 600
          \<and> HTTPError 503 = HTTPError (status_code res))"
    by (simp add: sample_world_def get_unavailable_def)
  have h5o: "requests_get ?o (length (requests ?s)) ''X'' = Inl ConnectionError
      \<or> (\<exists>res. requests_get ?o (length (requests ?s)) ''X'' = Inr res
          \<and> 400 \<le> status_code res \<and> status_code res < 600
          \<and> ConnectionError = HTTPError (status_code res))"
    by (simp add: sample_world_def get_offline_def)
  have same: "?s\<lparr>final_q := [], pending := ?revs,
        requests := requests ?s @ [''X''], raised := Some e\<rparr> =
      ?s\<lparr>requests := [''X''], raised := Some e\<rparr>" for e
    by (simp add: tracking_def initial_def rev_x_def)
  show ?thesis
    using lookup_failure_fatal [OF h1 h2u h3 h4 h5u, of "[[], []]"]
      lookup_failure_fatal [OF h1 h2o h3 h4 h5o, of "[[], []]"]
    by (simp only: same)
qed

theorem empty_batch_witness:
  "cirrusdump get_offline [] [] = (Inr [], [])
   \<and> poll (sample_world get_offline) initial = initial"
  using empty_batch [of get_offline "[]"]
  by (simp add: poll_def sample_world_def initial_def fill_revs_Nil dict_keys_def)

section \<open>The single entry per subject\<close>









section \<open>A run of the polling loop\<close>

text \<open>
  The edit of Q1 to revision 42 is sampled; the first lookup reports version 41 and the
  entry stays pending; the second reports version 42, and the revision is yielded with
  the clock's first reading.
\<close>

lemma end_to_end_scenario:
  "monitor_latency (sample_world get_scenario) [[payload_q1], []] initial =
     initial\<lparr>requests := [''Q1'', ''Q1''], clock_calls := 1, yielded := [(rev_q1, 1060)]\<rparr>"
proof -
  have drain: "fill_revs sample_loads [payload_q1] [] = (None, [], [(JStr ''Q1'', rev_q1)])"
    using sample_drain(1) [of "[]" "[]"] by (simp add: fill_revs_Nil)
  have first: "poll (sample_world get_scenario) (initial\<lparr>final_q := [payload_q1]\<rparr>) =
      initial\<lparr>pending := [(JStr ''Q1'', rev_q1)], requests := [''Q1'']\<rparr>"
    by (simp add: poll_def sample_world_def initial_def drain current_search_rev_def
        cirrusdump_def py_join_def dict_keys_def get_scenario_def raise_for_status_def
        search_rev_def page_of_def resolve_def satisfied_def rev_q1_def)
  have second: "poll (sample_world get_scenario)
        (initial\<lparr>pending := [(JStr ''Q1'', rev_q1)], requests := [''Q1'']\<rparr>) =
      initial\<lparr>requests := [''Q1'', ''Q1''], clock_calls := 1, yielded := [(rev_q1, 1060)]\<rparr>"
    by (simp add: poll_def sample_world_def initial_def fill_revs_Nil current_search_rev_def
        cirrusdump_def py_join_def dict_keys_def get_scenario_def raise_for_status_def
        search_rev_def page_of_def resolve_def satisfied_def rev_q1_def sample_clock_def)
  show ?thesis
    using first second
    by (simp add: pushes_one pushes_Nil initial_def)
qed

text \<open>
  Values outside the declared types of \<^verbatim>\<open>Revision\<close>: a title that is a number is stored
  and makes the lookup fail when the titles are joined; a revision that is a string is
  stored and makes the comparison fail when a non-zero version is reported for it.
\<close>

lemma join_number_title: "py_join ''|'' [JStr ''Q1'', JInt 5] = Inl TypeError"
  by (simp add: py_join_def)

lemma compare_string_revision:
  "resolve clk (''X'', Some 3)
     (initial\<lparr>pending := [(JStr ''X'', \<lparr>page_title = JStr ''X'', rev_id = JStr ''7'',
        rc_timestamp = JInt 1000\<rparr>)]\<rparr>) =
   initial\<lparr>pending := [(JStr ''X'', \<lparr>page_title = JStr ''X'', rev_id = JStr ''7'',
        rc_timestamp = JInt 1000\<rparr>)], raised := Some TypeError\<rparr>"
  by (simp add: resolve_def satisfied_def initial_def)

end
